theory Spec2Isabelle
  imports Complex_Main "HOL-Library.Multiset"
begin

section \<open>The locker dashboard of app.py\<close>

text \<open>
  The dashboard loads one table of locker reservations and derives three things from
  it: the rows left by the sidebar filters, the centre of the map, and the timeline
  of the clicked locker. The table is a list of rows in file order. A text cell is a
  \<open>string option\<close>, where \<open>None\<close> is the missing cell (pandas' NaN); a
  coordinate is a \<open>real option\<close> in the same way; the text of a date cell is a
  list of Unicode code points. Arithmetic on coordinates is
  exact: the rounding of machine floats is not part of this model.
\<close>

subsection \<open>Data model\<close>

type_synonym cell = "string option"

text \<open>
  The text of a date cell is a Python \<open>str\<close>, kept here as the list of its Unicode
  code points: what \<open>strip()\<close> removes depends on the code points, so these cells are
  not narrowed to ASCII. \<open>ustr\<close> writes such a text from its ASCII characters.
\<close>

type_synonym ustring = "nat list"

definition ustr :: "string \<Rightarrow> ustring" where
  "ustr s = map of_char s"

record locker =
  Type :: cell
  Location_Type :: cell
  Borough :: cell
  Locker_Size :: cell
  Status :: cell
  Latitude :: "real option"
  longitude :: "real option"
  Address :: cell
  Locker_Name :: cell
  Delivery_Date :: "ustring option"
  Receive_Date :: "ustring option"
  Withdraw_Date :: "ustring option"
  Expire_Date :: "ustring option"

text \<open>
  A dropdown value: \<open>None\<close> is Python's \<open>None\<close>, \<open>Some s\<close> the string
  \<open>s\<close>.
\<close>

type_synonym selection = "string option"

subsection \<open>Bubble size (lines 12 to 18)\<close>

text \<open>\<open>astype(str)\<close> prints the missing cell as the text \<open>nan\<close>.\<close>

definition astype_str :: "cell \<Rightarrow> string" where
  "astype_str c = (case c of None \<Rightarrow> ''nan'' | Some s \<Rightarrow> s)"

text \<open>The character class \<open>[SMLX]\<close>.\<close>

definition SMLX :: "char \<Rightarrow> bool" where
  "SMLX c \<longleftrightarrow> c \<in> set ''SMLX''"

text \<open>
  The pattern \<open>[SMLX]+\<close> tried at the start of \<open>s\<close>: the repetition is greedy
  and nothing follows it, so the match is the longest run of class characters, and
  there is none when that run is empty.
\<close>

definition match_here :: "string \<Rightarrow> string option" where
  "match_here s = (let m = takeWhile SMLX s in if m = [] then None else Some m)"

text \<open>
  \<open>str.extract\<close> searches: it tries the pattern at each position from the left
  and keeps the first match (group 0 of the result); no match gives NaN.
\<close>

fun str_extract :: "string \<Rightarrow> string option" where
  "str_extract [] = None"
| "str_extract (c # cs) =
     (case match_here (c # cs) of Some m \<Rightarrow> Some m | None \<Rightarrow> str_extract cs)"

definition size_map :: "string \<rightharpoonup> nat" where
  "size_map = map_of [(''S'', 14), (''M'', 22), (''L'', 32), (''XL'', 42)]"

text \<open>\<open>.map(size_map)\<close> keeps NaN and sends an unknown key to NaN; \<open>.fillna(10)\<close>.\<close>

definition bubble_size :: "cell \<Rightarrow> nat" where
  "bubble_size c =
     (case Option.bind (str_extract (astype_str c)) size_map of
        None \<Rightarrow> 10
      | Some n \<Rightarrow> n)"

text \<open>
  The reading of the specification, for comparison: the run of size letters is
  taken at the start of the text only, and then looked up in the same table.
\<close>

definition spec_bubble_size :: "cell \<Rightarrow> nat" where
  "spec_bubble_size c =
     (case size_map (takeWhile SMLX (astype_str c)) of
        None \<Rightarrow> 10
      | Some n \<Rightarrow> n)"

subsection \<open>Filtering (lines 29 to 35 and 141 to 146)\<close>

definition filter_columns :: "(locker \<Rightarrow> cell) list" where
  "filter_columns = [Type, Location_Type, Borough, Locker_Size, Status]"

text \<open>
  The loop of \<open>filter_df\<close> over \<open>zip(filter_columns, args)\<close>. A comparison of a
  missing cell with a string is false, so a row whose cell is missing never passes a
  constrained column.
\<close>

fun filter_loop :: "((locker \<Rightarrow> cell) \<times> selection) list \<Rightarrow> locker list \<Rightarrow> locker list" where
  "filter_loop [] dff = dff"
| "filter_loop ((col, v) # rest) dff =
     filter_loop rest
       (if v \<notin> set [None, Some ''All''] then filter (\<lambda>r. col r = v) dff else dff)"

definition filter_df :: "locker list \<Rightarrow> selection list \<Rightarrow> locker list" where
  "filter_df df args = filter_loop (zip filter_columns args) df"

text \<open>What the specification asks of one column: the wildcard and the omitted
  selection impose nothing, any other selection must equal the cell.\<close>

definition admits :: "selection \<Rightarrow> cell \<Rightarrow> bool" where
  "admits v x \<longleftrightarrow> v = None \<or> v = Some ''All'' \<or> x = v"

definition clear_all :: "nat \<Rightarrow> selection list" where
  "clear_all n_clicks = replicate (length filter_columns) (Some ''All'')"

subsection \<open>Map centre (lines 166 to 169)\<close>

text \<open>\<open>Series.mean()\<close> skips missing values; with none left the mean is NaN.\<close>

definition mean :: "real option list \<Rightarrow> real option" where
  "mean xs =
     (let ys = concat (map (\<lambda>x. case x of None \<Rightarrow> [] | Some y \<Rightarrow> [y]) xs)
      in if ys = [] then None else Some (sum_list ys / real (length ys)))"

record center =
  lat :: "real option"
  lon :: "real option"

definition update_map_center :: "locker list \<Rightarrow> selection list \<Rightarrow> center" where
  "update_map_center df filter_values =
     (let dff = filter_df df filter_values in
      \<lparr> lat = (if dff \<noteq> [] then mean (map Latitude dff) else Some 40.73),
        lon = (if dff \<noteq> [] then mean (map longitude dff) else Some (- 73.98)) \<rparr>)"

definition arithmetic_mean :: "real list \<Rightarrow> real" where
  "arithmetic_mean xs = sum_list xs / real (length xs)"

text \<open>The coordinates that are not missing.\<close>

definition known :: "real option list \<Rightarrow> real list" where
  "known xs = concat (map (\<lambda>x. case x of None \<Rightarrow> [] | Some y \<Rightarrow> [y]) xs)"

subsection \<open>Timeline (lines 21 to 26 and 181 to 247)\<close>

definition timeline_points :: "(string \<times> (locker \<Rightarrow> ustring option)) list" where
  "timeline_points =
     [(''Delivery'', Delivery_Date), (''Receive'', Receive_Date),
      (''Withdraw'', Withdraw_Date), (''Expire'', Expire_Date)]"

text \<open>A point of the click payload: \<open>point.get\<close> of an absent key is \<open>None\<close>.\<close>

record point =
  hovertext :: "string option"
  point_Address :: "string option"

text \<open>The payload: \<open>None\<close> when the \<open>points\<close> key is absent.\<close>

record click_data =
  points :: "point list option"

text \<open>Python's \<open>a or b\<close> on optional strings: \<open>None\<close> and the empty string are
  false.\<close>

definition py_or :: "string option \<Rightarrow> string option \<Rightarrow> string option" where
  "py_or a b = (if a = None \<or> a = Some [] then b else a)"

text \<open>
  The code points for which \<open>str.isspace\<close> holds, which are the ones \<open>str.strip()\<close>
  removes: the ASCII controls 9 to 13 and 28 to 31, the space, U+0085, U+00A0, U+1680,
  U+2000 to U+200A, U+2028, U+2029, U+202F, U+205F and U+3000.
\<close>

definition isspace :: "nat \<Rightarrow> bool" where
  "isspace c \<longleftrightarrow>
     (0x09 \<le> c \<and> c \<le> 0x0D) \<or> (0x1C \<le> c \<and> c \<le> 0x20) \<or> c = 0x85 \<or> c = 0xA0 \<or>
     c = 0x1680 \<or> (0x2000 \<le> c \<and> c \<le> 0x200A) \<or> c = 0x2028 \<or> c = 0x2029 \<or>
     c = 0x202F \<or> c = 0x205F \<or> c = 0x3000"

definition strip :: "ustring \<Rightarrow> ustring" where
  "strip s = rev (dropWhile isspace (rev (dropWhile isspace s)))"

text \<open>
  \<open>str.lower()\<close> on the letters A to Z. The guard only compares the lowered text with
  \<open>nan\<close>, and A, N, a and n are the only code points whose lower case contains an
  \<open>a\<close> or an \<open>n\<close>; so leaving every other code point as it is decides that
  comparison as Python does.
\<close>

definition lower_char :: "nat \<Rightarrow> nat" where
  "lower_char c = (if 0x41 \<le> c \<and> c \<le> 0x5A then c + 0x20 else c)"

definition lower :: "ustring \<Rightarrow> ustring" where
  "lower s = map lower_char s"

text \<open>
  The guard of line 205 on a cell read with \<open>r.get(col)\<close>: not null, not empty
  after stripping, and not the text \<open>nan\<close> in any case.
\<close>

definition has_date :: "ustring option \<Rightarrow> bool" where
  "has_date dt \<longleftrightarrow>
     (case dt of None \<Rightarrow> False | Some s \<Rightarrow> strip s \<noteq> [] \<and> lower s \<noteq> ustr ''nan'')"

text \<open>
  What \<open>pd.to_datetime\<close> returns for a text: the missing time \<open>NaT\<close>, a timestamp
  without time zone, or a timestamp with one. The number is the instant (for a
  timestamp with a zone, the instant in UTC).
\<close>

datatype stamp = NaT | Naive int | Aware int

text \<open>
  \<open>pd.to_datetime\<close> raises on a text it cannot read, and comparing a timestamp
  without zone to one with a zone raises \<open>TypeError\<close>; nothing catches either.
\<close>

datatype error = DateParseError ustring | TypeError

text \<open>The comparison \<open><\<close> of two such values: false whenever \<open>NaT\<close> takes part.\<close>

fun py_lt :: "stamp \<Rightarrow> stamp \<Rightarrow> error + bool" where
  "py_lt NaT b = Inr False"
| "py_lt (Naive x) NaT = Inr False"
| "py_lt (Aware x) NaT = Inr False"
| "py_lt (Naive x) (Naive y) = Inr (x < y)"
| "py_lt (Aware x) (Aware y) = Inr (x < y)"
| "py_lt (Naive x) (Aware y) = Inl TypeError"
| "py_lt (Aware x) (Naive y) = Inl TypeError"

definition instant :: "stamp \<Rightarrow> int" where
  "instant k = (case k of NaT \<Rightarrow> 0 | Naive x \<Rightarrow> x | Aware x \<Rightarrow> x)"

text \<open>
  The loop of lines 202 to 206. The parser \<open>to_datetime\<close> is the library's; it is
  a parameter here, returning \<open>None\<close> where the library raises.
\<close>

fun timeline_loop ::
  "(ustring \<Rightarrow> stamp option) \<Rightarrow> locker \<Rightarrow> (string \<times> (locker \<Rightarrow> ustring option)) list \<Rightarrow>
   (string \<times> stamp) list \<Rightarrow> error + (string \<times> stamp) list" where
  "timeline_loop to_datetime r [] timeline_data = Inr timeline_data"
| "timeline_loop to_datetime r ((label, col) # rest) timeline_data =
     (let dt = col r in
      if has_date dt then
        (case to_datetime (the dt) of
           None \<Rightarrow> Inl (DateParseError (the dt))
         | Some t \<Rightarrow> timeline_loop to_datetime r rest (timeline_data @ [(label, t)]))
      else timeline_loop to_datetime r rest timeline_data)"

text \<open>
  Line 218, \<open>timeline_data.sort(key=lambda x: x[1])\<close>. A list of fewer than two
  events is left as it is, without a comparison. Otherwise:

  \<^item> with no \<open>NaT\<close> among the keys and a timestamp without zone next to one with a
    zone, the sort meets such a pair and raises \<open>TypeError\<close>;
  \<^item> with no \<open>NaT\<close> and the keys all of one kind, \<open><\<close> orders them by instant and
    the sort, which is stable, arranges the events as \<open>sort_key\<close> does;
  \<^item> with \<open>NaT\<close> among the keys, \<open><\<close> is not an order. What the sort then leaves,
    and whether it meets a pair that raises, depends on the sorting algorithm of the
    interpreter, which its versions do not share. This part of the library is the
    parameter \<open>sort_NaT\<close>.
\<close>

definition list_sort ::
  "((string \<times> stamp) list \<Rightarrow> error + (string \<times> stamp) list) \<Rightarrow>
   (string \<times> stamp) list \<Rightarrow> error + (string \<times> stamp) list" where
  "list_sort sort_NaT xs =
     (if length xs < 2 then Inr xs
      else if NaT \<in> set (map snd xs) then sort_NaT xs
      else if \<exists>a \<in> set (map snd xs). \<exists>b \<in> set (map snd xs). py_lt a b = Inl TypeError
      then Inl TypeError
      else Inr (sort_key (\<lambda>x. instant (snd x)) xs))"

text \<open>What the callback returns: a bare message, a message under the locker's
  title, or the chart under the title with its rows (Step, Date) in order.\<close>

datatype view =
  Placeholder string
| LockerPlaceholder cell string
| TimelineChart cell "(string \<times> stamp) list"

definition title :: "locker \<Rightarrow> cell" where
  "title r = (if Locker_Name r \<noteq> None then Locker_Name r else Address r)"

text \<open>Lines 207 to 247, for the resolved row \<open>r\<close>.\<close>

definition render_row ::
  "(ustring \<Rightarrow> stamp option) \<Rightarrow> ((string \<times> stamp) list \<Rightarrow> error + (string \<times> stamp) list) \<Rightarrow>
   locker \<Rightarrow> error + view" where
  "render_row to_datetime sort_NaT r =
     (case timeline_loop to_datetime r timeline_points [] of
        Inl e \<Rightarrow> Inl e
      | Inr timeline_data \<Rightarrow>
          if length timeline_data < 2
          then Inr (LockerPlaceholder (title r) ''No timeline available for this locker.'')
          else (case list_sort sort_NaT timeline_data of
                  Inl e \<Rightarrow> Inl e
                | Inr sorted_data \<Rightarrow> Inr (TimelineChart (title r) sorted_data)))"

text \<open>Line 197: the rows of the filtered table whose address equals the clicked one;
  comparing with \<open>None\<close> is false for every row.\<close>

definition rows_at :: "locker list \<Rightarrow> string option \<Rightarrow> locker list" where
  "rows_at dff addr = filter (\<lambda>r. addr \<noteq> None \<and> Address r = addr) dff"

definition show_timeline_chart ::
  "(ustring \<Rightarrow> stamp option) \<Rightarrow> ((string \<times> stamp) list \<Rightarrow> error + (string \<times> stamp) list) \<Rightarrow>
   locker list \<Rightarrow> click_data option \<Rightarrow> selection list \<Rightarrow> error + view" where
  "show_timeline_chart to_datetime sort_NaT df clickData filter_values =
     (let dff = filter_df df filter_values in
      case clickData of
        None \<Rightarrow> Inr (Placeholder ''Click a marker to see the timeline!'')
      | Some cd \<Rightarrow>
          (case points cd of
             None \<Rightarrow> Inr (Placeholder ''Click a marker to see the timeline!'')
           | Some [] \<Rightarrow> Inr (Placeholder ''Click a marker to see the timeline!'')
           | Some (point # _) \<Rightarrow>
               (let addr = py_or (hovertext point) (point_Address point);
                    row = rows_at dff addr
                in case row of
                     [] \<Rightarrow> Inr (Placeholder ''No data for this locker.'')
                   | r # _ \<Rightarrow> render_row to_datetime sort_NaT r)))"

text \<open>A text is blank when it holds nothing but white space.\<close>

definition blank :: "ustring \<Rightarrow> bool" where
  "blank s \<longleftrightarrow> (\<forall>c \<in> set s. isspace c)"

text \<open>
  The events the loop keeps from one column, written without the loop: nothing for a
  cell the guard rejects, the parsed timestamp otherwise.
\<close>

definition kept ::
  "(ustring \<Rightarrow> stamp option) \<Rightarrow> locker \<Rightarrow> string \<times> (locker \<Rightarrow> ustring option) \<Rightarrow>
   (string \<times> stamp) list" where
  "kept to_datetime r p =
     (if has_date (snd p r)
      then (case to_datetime (the (snd p r)) of None \<Rightarrow> [] | Some t \<Rightarrow> [(fst p, t)])
      else [])"

text \<open>Whether every cell that passes the guard can be parsed.\<close>

definition all_parse ::
  "(ustring \<Rightarrow> stamp option) \<Rightarrow> locker \<Rightarrow> (string \<times> (locker \<Rightarrow> ustring option)) list \<Rightarrow> bool" where
  "all_parse to_datetime r ps \<longleftrightarrow>
     list_all (\<lambda>p. has_date (snd p r) \<longrightarrow> to_datetime (the (snd p r)) \<noteq> None) ps"

text \<open>The events of a row that the specification calls present, in the order of
  \<open>timeline_points\<close>.\<close>

definition present_events :: "(ustring \<Rightarrow> stamp option) \<Rightarrow> locker \<Rightarrow> (string \<times> stamp) list" where
  "present_events to_datetime r = concat (map (kept to_datetime r) timeline_points)"

text \<open>Timestamps that \<open><\<close> orders: all without a zone, or all with one.\<close>

definition comparable :: "stamp list \<Rightarrow> bool" where
  "comparable ks \<longleftrightarrow>
     (\<forall>k \<in> set ks. \<exists>x. k = Naive x) \<or> (\<forall>k \<in> set ks. \<exists>x. k = Aware x)"

text \<open>
  A parser for evaluating examples. It reads a calendar date written \<open>YYYY-MM-DD\<close>
  as a timestamp without zone, the same date followed by \<open>T00:00:00Z\<close> as a
  timestamp in UTC, and the text \<open>NaT\<close> as the missing time; it refuses every other
  text. The instant of a date is the number \<open>YYYYMMDD\<close>, which orders the dates as
  time does. On the texts of the examples the library's parser does the same.
\<close>

definition digit :: "nat \<Rightarrow> nat option" where
  "digit c = (if 0x30 \<le> c \<and> c \<le> 0x39 then Some (c - 0x30) else None)"

fun number :: "ustring \<Rightarrow> nat \<Rightarrow> nat option" where
  "number [] acc = Some acc"
| "number (c # cs) acc =
     (case digit c of None \<Rightarrow> None | Some d \<Rightarrow> number cs (10 * acc + d))"

definition ymd :: "ustring \<Rightarrow> int option" where
  "ymd s =
     (if length s = 10 \<and> s ! 4 = 0x2D \<and> s ! 7 = 0x2D
      then (case (number (take 4 s) 0, number (take 2 (drop 5 s)) 0, number (drop 8 s) 0) of
              (Some y, Some m, Some d) \<Rightarrow>
                if 1 \<le> m \<and> m \<le> 12 \<and> 1 \<le> d \<and> d \<le> 31
                then Some (int (10000 * y + 100 * m + d)) else None
            | _ \<Rightarrow> None)
      else None)"

definition iso_date :: "ustring \<Rightarrow> stamp option" where
  "iso_date s =
     (if s = ustr ''NaT'' then Some NaT
      else if length s = 20 \<and> drop 10 s = ustr ''T00:00:00Z''
      then map_option Aware (ymd (take 10 s))
      else map_option Naive (ymd s))"

text \<open>For the examples, none of which sorts a \<open>NaT\<close>: an interpreter that leaves
  such a list as it is.\<close>

definition unmoved :: "(string \<times> stamp) list \<Rightarrow> error + (string \<times> stamp) list" where
  "unmoved xs = Inr xs"

subsection \<open>Example rows\<close>

definition blank_row :: locker where
  "blank_row =
     \<lparr> Type = None, Location_Type = None, Borough = None, Locker_Size = None,
       Status = None, Latitude = None, longitude = None, Address = None,
       Locker_Name = None, Delivery_Date = None, Receive_Date = None,
       Withdraw_Date = None, Expire_Date = None \<rparr>"

text \<open>A locker in the Bronx with the four dates of the specification's example.\<close>

definition row_a :: locker where
  "row_a = blank_row
     \<lparr> Type := Some ''Parcel'', Location_Type := Some ''Retail'', Borough := Some ''Bronx'',
       Locker_Size := Some ''S'', Status := Some ''Active'', Latitude := Some 40.8,
       longitude := Some (- 73.9), Address := Some ''1 Main St'',
       Locker_Name := Some ''Locker A'', Delivery_Date := Some (ustr ''2024-03-01''),
       Receive_Date := Some (ustr ''2024-03-05''), Withdraw_Date := Some (ustr ''2024-03-07''),
       Expire_Date := Some (ustr ''2024-03-10'') \<rparr>"

text \<open>A locker in Queens with no name, a delivery cell that holds a no-break space
  (U+00A0) and an em space (U+2003), and a single date.\<close>

definition row_b :: locker where
  "row_b = blank_row
     \<lparr> Type := Some ''Parcel'', Location_Type := Some ''Transit'', Borough := Some ''Queens'',
       Locker_Size := Some ''XL'', Status := Some ''Active'', Latitude := Some 40.7,
       longitude := Some (- 73.8), Address := Some ''2 Elm St'',
       Delivery_Date := Some [0xA0, 0x2003], Receive_Date := Some (ustr ''2024-03-05''),
       Withdraw_Date := Some (ustr ''NAN'') \<rparr>"

text \<open>A locker whose withdrawal is recorded before its receipt.\<close>

definition row_c :: locker where
  "row_c = blank_row
     \<lparr> Borough := Some ''Queens'', Latitude := Some 40.6, longitude := Some (- 73.7),
       Address := Some ''3 Oak Ave'',
       Delivery_Date := Some (ustr ''2024-03-01''), Receive_Date := Some (ustr ''2024-03-09''),
       Withdraw_Date := Some (ustr ''2024-03-04'') \<rparr>"

text \<open>Lockers with a date cell that holds no date.\<close>

definition row_d :: locker where
  "row_d = blank_row
     \<lparr> Address := Some ''4 Pine Rd'', Delivery_Date := Some (ustr ''not a date''),
       Receive_Date := Some (ustr ''2024-03-05''), Withdraw_Date := Some (ustr ''2024-03-07'') \<rparr>"

definition row_e :: locker where
  "row_e = blank_row
     \<lparr> Address := Some ''5 Ash Ct'', Delivery_Date := Some (ustr ''2024-03-01''),
       Receive_Date := Some (ustr ''soon'') \<rparr>"

definition row_f :: locker where
  "row_f = blank_row
     \<lparr> Address := Some ''6 Bay Pl'', Delivery_Date := Some (ustr ''2024-03-01''),
       Receive_Date := Some (ustr ''2024-03-05''), Expire_Date := Some (ustr ''unknown'') \<rparr>"

text \<open>A locker whose receipt is stamped in UTC and whose delivery has no zone.\<close>

definition row_g :: locker where
  "row_g = blank_row
     \<lparr> Address := Some ''7 Fir Ln'', Delivery_Date := Some (ustr ''2024-03-01''),
       Receive_Date := Some (ustr ''2024-03-05T00:00:00Z'') \<rparr>"

definition example_df :: "locker list" where
  "example_df = [row_a, row_b, row_c]"

text \<open>A click on the marker whose hover text is the given address.\<close>

definition click_on :: "string \<Rightarrow> click_data option" where
  "click_on a = Some \<lparr> points = Some [\<lparr> hovertext = Some a, point_Address = None \<rparr>] \<rparr>"

definition no_filter :: "selection list" where
  "no_filter = [Some ''All'', Some ''All'', Some ''All'', Some ''All'', Some ''All'']"

definition only_richmond :: "selection list" where
  "only_richmond = [Some ''All'', Some ''All'', Some ''Richmond'', Some ''All'', Some ''All'']"

definition only_queens :: "selection list" where
  "only_queens = [Some ''All'', Some ''All'', Some ''Queens'', Some ''All'', Some ''All'']"

section \<open>Evaluating the examples\<close>

lemmas rows = row_a_def row_b_def row_c_def row_d_def row_e_def row_f_def row_g_def
  blank_row_def

lemmas sels = no_filter_def only_queens_def only_richmond_def

lemmas bs = bubble_size_def astype_str_def match_here_def SMLX_def size_map_def

lemma ustr_examples:
  "ustr ''2024-03-01'' = [50, 48, 50, 52, 45, 48, 51, 45, 48, 49]"
  "ustr ''2024-03-04'' = [50, 48, 50, 52, 45, 48, 51, 45, 48, 52]"
  "ustr ''2024-03-05'' = [50, 48, 50, 52, 45, 48, 51, 45, 48, 53]"
  "ustr ''2024-03-07'' = [50, 48, 50, 52, 45, 48, 51, 45, 48, 55]"
  "ustr ''2024-03-09'' = [50, 48, 50, 52, 45, 48, 51, 45, 48, 57]"
  "ustr ''2024-03-10'' = [50, 48, 50, 52, 45, 48, 51, 45, 49, 48]"
  "ustr ''2024-03-05T00:00:00Z'' =
     [50, 48, 50, 52, 45, 48, 51, 45, 48, 53, 84, 48, 48, 58, 48, 48, 58, 48, 48, 90]"
  "ustr ''T00:00:00Z'' = [84, 48, 48, 58, 48, 48, 58, 48, 48, 90]"
  "ustr ''not a date'' = [110, 111, 116, 32, 97, 32, 100, 97, 116, 101]"
  "ustr ''soon'' = [115, 111, 111, 110]"
  "ustr ''unknown'' = [117, 110, 107, 110, 111, 119, 110]"
  "ustr ''nan'' = [110, 97, 110]"
  "ustr ''NAN'' = [78, 65, 78]"
  "ustr ''NaT'' = [78, 97, 84]"
  by (simp_all add: ustr_def)

lemma iso_date_examples:
  "iso_date (ustr ''2024-03-01'') = Some (Naive 20240301)"
  "iso_date (ustr ''2024-03-04'') = Some (Naive 20240304)"
  "iso_date (ustr ''2024-03-05'') = Some (Naive 20240305)"
  "iso_date (ustr ''2024-03-07'') = Some (Naive 20240307)"
  "iso_date (ustr ''2024-03-09'') = Some (Naive 20240309)"
  "iso_date (ustr ''2024-03-10'') = Some (Naive 20240310)"
  "iso_date (ustr ''2024-03-05T00:00:00Z'') = Some (Aware 20240305)"
  "iso_date (ustr ''not a date'') = None"
  "iso_date (ustr ''soon'') = None"
  "iso_date (ustr ''unknown'') = None"
  "iso_date (ustr ''NaT'') = Some NaT"
  by (simp_all add: ustr_examples iso_date_def ymd_def digit_def)

lemma has_date_examples:
  "has_date (Some (ustr ''2024-03-01''))"
  "has_date (Some (ustr ''2024-03-04''))"
  "has_date (Some (ustr ''2024-03-05''))"
  "has_date (Some (ustr ''2024-03-07''))"
  "has_date (Some (ustr ''2024-03-09''))"
  "has_date (Some (ustr ''2024-03-10''))"
  "has_date (Some (ustr ''2024-03-05T00:00:00Z''))"
  "has_date (Some (ustr ''not a date''))"
  "has_date (Some (ustr ''soon''))"
  "has_date (Some (ustr ''unknown''))"
  "has_date (Some (ustr ''NaT''))"
  "\<not> has_date (Some (ustr ''NAN''))"
  "\<not> has_date (Some [0xA0, 0x2003])"
  "\<not> has_date None"
  by (simp_all add: ustr_examples has_date_def strip_def isspace_def lower_def lower_char_def)

section \<open>Filtering\<close>

text \<open>The loop keeps exactly the rows that every zipped column admits.\<close>

lemma filter_loop_filter:
  "filter_loop cvs dff = filter (\<lambda>r. \<forall>cv \<in> set cvs. admits (snd cv) (fst cv r)) dff"
proof (induction cvs arbitrary: dff)
  case Nil
  then show ?case by simp
next
  case (Cons cv cvs)
  obtain col v where cv: "cv = (col, v)" by (cases cv)
  have step: "(if v \<notin> set [None, Some ''All''] then filter (\<lambda>r. col r = v) dff else dff)
      = filter (\<lambda>r. admits v (col r)) dff"
    by (cases v) (simp_all add: admits_def)
  show ?case
    unfolding cv filter_loop.simps step Cons.IH
    by (simp add: conj_commute)
qed

lemma filter_df_five:
  "filter_df df [t, lt, b, ls, st] =
     filter (\<lambda>r. admits t (Type r) \<and> admits lt (Location_Type r) \<and> admits b (Borough r) \<and>
                 admits ls (Locker_Size r) \<and> admits st (Status r)) df"
  by (simp add: filter_df_def filter_columns_def filter_loop_filter)

lemma filter_examples:
  "filter_df example_df no_filter = [row_a, row_b, row_c]"
  "filter_df example_df only_queens = [row_b, row_c]"
  "filter_df example_df only_richmond = []"
  "filter_df [row_d] no_filter = [row_d]"
  "filter_df [row_e] no_filter = [row_e]"
  by (simp_all add: filter_df_def filter_columns_def sels example_df_def rows)

text \<open>
  \<^bold>\<open>C1.\<close> For one selection per filter column (Type, Location Type, Borough, Locker
  Size, Status), \<open>filter_df\<close> returns exactly the rows of the table that satisfy,
  for every column whose selection is neither the wildcard nor omitted, equality of the
  cell with the selection; the rows keep their order, and as a set they are the rows
  satisfying that conjunction.
\<close>

theorem filter_df_exact:
  "filter_df df [t, lt, b, ls, st] =
     filter (\<lambda>r. admits t (Type r) \<and> admits lt (Location_Type r) \<and> admits b (Borough r) \<and>
                 admits ls (Locker_Size r) \<and> admits st (Status r)) df
   \<and> set (filter_df df [t, lt, b, ls, st]) =
     {r \<in> set df. admits t (Type r) \<and> admits lt (Location_Type r) \<and> admits b (Borough r) \<and>
                 admits ls (Locker_Size r) \<and> admits st (Status r)}"
  by (simp add: filter_df_five)

theorem filter_df_exact_witness:
  "filter_df example_df only_queens = [row_b, row_c]
   \<and> set (filter_df example_df only_queens) = {row_b, row_c}"
  using filter_df_exact [of example_df "Some ''All''" "Some ''All''" "Some ''Queens''"
      "Some ''All''" "Some ''All''"]
  by (simp add: only_queens_def example_df_def admits_def rows)

text \<open>
  \<^bold>\<open>C8.\<close> Filtering is idempotent: filtering the filtered table again with the same
  selections gives the same table.
\<close>

theorem filter_df_idempotent:
  "filter_df (filter_df df args) args = filter_df df args"
  by (simp add: filter_df_def filter_loop_filter)

theorem filter_df_idempotent_witness:
  "filter_df (filter_df example_df only_queens) only_queens = [row_b, row_c]"
  using filter_df_idempotent [of example_df only_queens]
  by (simp add: filter_examples)

text \<open>
  \<^bold>\<open>C9.\<close> The reset sets each of the five selections to the wildcard \<open>All\<close>, and
  filtering with these selections returns the whole table.
\<close>

theorem clear_all_restores:
  "clear_all n = [Some ''All'', Some ''All'', Some ''All'', Some ''All'', Some ''All'']
   \<and> filter_df df (clear_all n) = df"
  by (simp add: clear_all_def filter_columns_def filter_df_def)

theorem clear_all_restores_witness:
  "filter_df example_df (clear_all 1) = example_df"
  using clear_all_restores [of 1 example_df] by blast

lemma zip_none_all:
  "(\<forall>cv \<in> set (zip cs (args[i := None])). admits (snd cv) (fst cv r))
      = (\<forall>cv \<in> set (zip cs (args[i := Some ''All''])). admits (snd cv) (fst cv r))"
proof (induction args arbitrary: i cs)
  case Nil
  then show ?case by simp
next
  case (Cons a args)
  show ?case
  proof (cases cs)
    case Nil
    then show ?thesis by simp
  next
    case cs: (Cons c cs')
    show ?thesis
    proof (cases i)
      case 0
      then show ?thesis by (simp add: cs admits_def)
    next
      case (Suc j)
      then show ?thesis using Cons.IH [of cs' j] by (simp add: cs)
    qed
  qed
qed

text \<open>
  \<^bold>\<open>C10.\<close> A selection of \<open>None\<close> is treated as the wildcard \<open>All\<close>: putting
  one for the other at any position leaves the result unchanged, and when every selection
  is \<open>None\<close> or \<open>All\<close> the whole table is returned.
\<close>

theorem none_is_wildcard:
  "filter_df df (args[i := None]) = filter_df df (args[i := Some ''All''])
   \<and> (set args \<subseteq> {None, Some ''All''} \<longrightarrow> filter_df df args = df)"
proof
  show "filter_df df (args[i := None]) = filter_df df (args[i := Some ''All''])"
    unfolding filter_df_def filter_loop_filter zip_none_all ..
next
  show "set args \<subseteq> {None, Some ''All''} \<longrightarrow> filter_df df args = df"
  proof
    assume a: "set args \<subseteq> {None, Some ''All''}"
    have "\<forall>cv \<in> set (zip filter_columns args). admits (snd cv) (fst cv r)" for r
      using a by (auto simp: admits_def dest!: set_zip_rightD)
    then show "filter_df df args = df"
      by (simp add: filter_df_def filter_loop_filter)
  qed
qed

theorem none_is_wildcard_witness:
  "set [None, Some ''All'', None, None, Some ''All''] \<subseteq> {None, Some ''All''}
   \<and> filter_df example_df [None, Some ''All'', None, None, Some ''All''] = example_df"
proof -
  have s: "set [None, Some ''All'', None, None, Some ''All''] \<subseteq> {None, Some ''All''}"
    by simp
  from none_is_wildcard [of example_df "[None, Some ''All'', None, None, Some ''All'']" 0] s
  show ?thesis by blast
qed

section \<open>Bubble size\<close>

lemma str_extract_run:
  "str_extract s =
     (let m = takeWhile SMLX (dropWhile (\<lambda>c. \<not> SMLX c) s) in if m = [] then None else Some m)"
  by (induction s) (simp_all add: match_here_def Let_def)

lemma size_map_cases:
  "size_map m = (if m = ''S'' then Some 14 else if m = ''M'' then Some 22
                 else if m = ''L'' then Some 32 else if m = ''XL'' then Some 42 else None)"
  by (simp add: size_map_def)

lemma bubble_size_run:
  "bubble_size c =
     (let run = takeWhile SMLX (dropWhile (\<lambda>x. \<not> SMLX x) (astype_str c))
      in if run = ''S'' then 14 else if run = ''M'' then 22
         else if run = ''L'' then 32 else if run = ''XL'' then 42 else 10)"
  by (simp add: bubble_size_def str_extract_run size_map_cases Let_def)

text \<open>
  \<^bold>\<open>C2\<close>, as the code has it. The bubble size is found from the first run of the
  letters S, M, L, X that occurs anywhere in the text of the locker size, not only at its
  start: the whole run is looked up, S giving 14, M 22, L 32 and XL 42, and a text with no
  such run or with another run (X, XXL, SM) gives 10. So \<open>S\<close>, \<open>M\<close>, \<open>L\<close>,
  \<open>XL\<close> give 14, 22, 32, 42, and \<open>unknown\<close>, the empty text and the missing cell
  give 10.
\<close>

theorem bubble_size_first_run:
  "bubble_size c =
     (let run = takeWhile SMLX (dropWhile (\<lambda>x. \<not> SMLX x) (astype_str c))
      in if run = ''S'' then 14 else if run = ''M'' then 22
         else if run = ''L'' then 32 else if run = ''XL'' then 42 else 10)
   \<and> bubble_size (Some ''S'') = 14 \<and> bubble_size (Some ''M'') = 22
   \<and> bubble_size (Some ''L'') = 32 \<and> bubble_size (Some ''XL'') = 42
   \<and> bubble_size (Some ''X'') = 10 \<and> bubble_size (Some ''unknown'') = 10
   \<and> bubble_size (Some '''') = 10 \<and> bubble_size None = 10"
proof -
  have "bubble_size (Some ''S'') = 14 \<and> bubble_size (Some ''M'') = 22
   \<and> bubble_size (Some ''L'') = 32 \<and> bubble_size (Some ''XL'') = 42
   \<and> bubble_size (Some ''X'') = 10 \<and> bubble_size (Some ''unknown'') = 10
   \<and> bubble_size (Some '''') = 10 \<and> bubble_size None = 10"
    by (simp add: bs)
  with bubble_size_run [of c] show ?thesis by blast
qed

theorem bubble_size_first_run_witness:
  "bubble_size (Some ''size XL'') = 42"
  using bubble_size_first_run [of "Some ''size XL''"]
  by (simp add: astype_str_def SMLX_def)

text \<open>
  The size letter of \<open>size L\<close> does not lead the text: the code finds it and gives 32,
  while matching the leading run gives the default 10.
\<close>

theorem bubble_size_leading_counterexample:
  "bubble_size (Some ''size L'') = 32 \<and> spec_bubble_size (Some ''size L'') = 10"
  by (simp add: bs spec_bubble_size_def)

section \<open>Map centre\<close>

lemma mean_known:
  "mean xs = (if known xs = [] then None else Some (arithmetic_mean (known xs)))"
  by (simp add: mean_def known_def arithmetic_mean_def Let_def)

lemma known_map_Some: "known (map Some ys) = ys"
  by (induction ys) (simp_all add: known_def)

text \<open>
  \<^bold>\<open>C5.\<close> With no filtered row the map is centred at latitude 40.73 and longitude
  -73.98. With filtered rows, all of which have coordinates, the centre is the sum of
  their latitudes, and of their longitudes, divided by the number of rows; in general it
  is the mean that skips missing coordinates.
\<close>

theorem map_center_mean:
  "(filter_df df fv = [] \<longrightarrow>
      update_map_center df fv = \<lparr> lat = Some 40.73, lon = Some (- 73.98) \<rparr>)
   \<and> (filter_df df fv \<noteq> [] \<and> map Latitude (filter_df df fv) = map Some lats
        \<and> map longitude (filter_df df fv) = map Some lons \<longrightarrow>
      update_map_center df fv =
        \<lparr> lat = Some (sum_list lats / real (length (filter_df df fv))),
          lon = Some (sum_list lons / real (length (filter_df df fv))) \<rparr>)
   \<and> (filter_df df fv \<noteq> [] \<longrightarrow>
      lat (update_map_center df fv) = mean (map Latitude (filter_df df fv))
      \<and> lon (update_map_center df fv) = mean (map longitude (filter_df df fv)))"
proof (intro conjI impI)
  assume "filter_df df fv = []"
  then show "update_map_center df fv = \<lparr> lat = Some 40.73, lon = Some (- 73.98) \<rparr>"
    by (simp add: update_map_center_def)
next
  assume a: "filter_df df fv \<noteq> [] \<and> map Latitude (filter_df df fv) = map Some lats
        \<and> map longitude (filter_df df fv) = map Some lons"
  then have ne: "filter_df df fv \<noteq> []"
    and la: "map Latitude (filter_df df fv) = map Some lats"
    and lo: "map longitude (filter_df df fv) = map Some lons"
    by simp_all
  from la have n1: "length lats = length (filter_df df fv)"
    by (metis length_map)
  from lo have n2: "length lons = length (filter_df df fv)"
    by (metis length_map)
  from ne n1 n2 have "lats \<noteq> []" "lons \<noteq> []" by auto
  then show "update_map_center df fv =
        \<lparr> lat = Some (sum_list lats / real (length (filter_df df fv))),
          lon = Some (sum_list lons / real (length (filter_df df fv))) \<rparr>"
    using ne by (simp add: update_map_center_def Let_def la lo mean_known known_map_Some
        arithmetic_mean_def n1 n2)
next
  assume "filter_df df fv \<noteq> []"
  then show "lat (update_map_center df fv) = mean (map Latitude (filter_df df fv))"
    by (simp add: update_map_center_def Let_def)
next
  assume "filter_df df fv \<noteq> []"
  then show "lon (update_map_center df fv) = mean (map longitude (filter_df df fv))"
    by (simp add: update_map_center_def Let_def)
qed

theorem map_center_mean_witness:
  "update_map_center example_df only_queens = \<lparr> lat = Some 40.65, lon = Some (- 73.75) \<rparr>
   \<and> update_map_center example_df only_richmond = \<lparr> lat = Some 40.73, lon = Some (- 73.98) \<rparr>"
proof -
  have a: "filter_df example_df only_queens \<noteq> []
      \<and> map Latitude (filter_df example_df only_queens) = map Some [40.7, 40.6]
      \<and> map longitude (filter_df example_df only_queens) = map Some [- 73.8, - 73.7]"
    by (simp add: filter_examples rows)
  from map_center_mean [of example_df only_queens "[40.7, 40.6]" "[- 73.8, - 73.7]"] a
  have "update_map_center example_df only_queens =
      \<lparr> lat = Some (sum_list [40.7, 40.6] / real (length (filter_df example_df only_queens))),
        lon = Some (sum_list [- 73.8, - 73.7] / real (length (filter_df example_df only_queens))) \<rparr>"
    by blast
  moreover from map_center_mean [of example_df only_richmond]
  have "update_map_center example_df only_richmond = \<lparr> lat = Some 40.73, lon = Some (- 73.98) \<rparr>"
    by (simp add: filter_examples)
  ultimately show ?thesis
    by (simp add: filter_examples)
qed

section \<open>Timeline\<close>

text \<open>The guard's two tests on a text, said directly.\<close>

lemma strip_Nil_iff: "strip s = [] \<longleftrightarrow> blank s"
proof -
  have "strip s = [] \<longleftrightarrow> (\<forall>c \<in> set (dropWhile isspace s). isspace c)"
    by (simp add: strip_def dropWhile_eq_Nil_conv)
  also have "\<dots> \<longleftrightarrow> dropWhile isspace s = []"
  proof
    assume a: "\<forall>c \<in> set (dropWhile isspace s). isspace c"
    show "dropWhile isspace s = []"
    proof (rule ccontr)
      assume ne: "dropWhile isspace s \<noteq> []"
      then have "\<not> isspace (hd (dropWhile isspace s))" by (rule hd_dropWhile)
      moreover from ne have "hd (dropWhile isspace s) \<in> set (dropWhile isspace s)" by simp
      ultimately show False using a by blast
    qed
  next
    assume "dropWhile isspace s = []"
    then show "\<forall>c \<in> set (dropWhile isspace s). isspace c" by (auto dest: set_dropWhileD)
  qed
  also have "\<dots> \<longleftrightarrow> blank s"
    by (simp add: dropWhile_eq_Nil_conv blank_def)
  finally show ?thesis .
qed

lemma lower_nan_iff:
  "lower s = ustr ''nan'' \<longleftrightarrow>
     (\<exists>a b c. s = [a, b, c] \<and> a \<in> {0x4E, 0x6E} \<and> b \<in> {0x41, 0x61} \<and> c \<in> {0x4E, 0x6E})"
proof -
  have n: "lower_char x = 110 \<longleftrightarrow> x \<in> {0x4E, 0x6E}" for x
    by (auto simp: lower_char_def)
  have a: "lower_char x = 97 \<longleftrightarrow> x \<in> {0x41, 0x61}" for x
    by (auto simp: lower_char_def)
  show ?thesis
    unfolding lower_def ustr_examples
    by (auto simp: map_eq_Cons_conv n a)
qed

text \<open>The sort on timestamps that \<open><\<close> orders, and on the others.\<close>

lemma py_lt_same_kind:
  "py_lt (Naive x) (Naive y) \<noteq> Inl TypeError" "py_lt (Aware x) (Aware y) \<noteq> Inl TypeError"
  by simp_all

lemma py_lt_comparable:
  "comparable [a, b] \<Longrightarrow> py_lt a b = Inr (instant a < instant b)"
  by (auto simp: comparable_def instant_def)

lemma sort_key_short: "length xs < 2 \<Longrightarrow> sort_key f xs = xs"
proof (cases xs)
  case Nil
  then show ?thesis by simp
next
  case (Cons x ys)
  assume "length xs < 2"
  with Cons have "ys = []" by simp
  with Cons show ?thesis by simp
qed

lemma list_sort_comparable:
  assumes "comparable (map snd xs)"
  shows "list_sort S xs = Inr (sort_key (\<lambda>x. instant (snd x)) xs)"
proof (cases "length xs < 2")
  case True
  then show ?thesis by (simp add: list_sort_def sort_key_short)
next
  case False
  from assms have no_nat: "NaT \<notin> set (map snd xs)"
    unfolding comparable_def by auto
  from assms have no_mix: "\<not> (\<exists>a \<in> set (map snd xs). \<exists>b \<in> set (map snd xs). py_lt a b = Inl TypeError)"
    unfolding comparable_def
  proof
    assume n: "\<forall>k \<in> set (map snd xs). \<exists>x. k = Naive x"
    show ?thesis
    proof
      assume "\<exists>a \<in> set (map snd xs). \<exists>b \<in> set (map snd xs). py_lt a b = Inl TypeError"
      then obtain a b where "a \<in> set (map snd xs)" "b \<in> set (map snd xs)" "py_lt a b = Inl TypeError"
        by blast
      with n obtain x y where "py_lt (Naive x) (Naive y) = Inl TypeError" by metis
      then show False by simp
    qed
  next
    assume n: "\<forall>k \<in> set (map snd xs). \<exists>x. k = Aware x"
    show ?thesis
    proof
      assume "\<exists>a \<in> set (map snd xs). \<exists>b \<in> set (map snd xs). py_lt a b = Inl TypeError"
      then obtain a b where "a \<in> set (map snd xs)" "b \<in> set (map snd xs)" "py_lt a b = Inl TypeError"
        by blast
      with n obtain x y where "py_lt (Aware x) (Aware y) = Inl TypeError" by metis
      then show False by simp
    qed
  qed
  from False no_nat no_mix show ?thesis
    unfolding list_sort_def by (simp only: if_False)
qed

lemma list_sort_mixed:
  "list_sort S [(l, Naive x), (m, Aware y)] = Inl TypeError"
  "list_sort S [(l, Aware x), (m, Naive y)] = Inl TypeError"
  by (simp_all add: list_sort_def)

lemma list_sort_NaT:
  "NaT \<in> set (map snd xs) \<Longrightarrow> 2 \<le> length xs \<Longrightarrow> list_sort S xs = S xs"
  by (simp add: list_sort_def)

text \<open>The loop of the callback.\<close>

lemma timeline_loop_all_parse:
  "all_parse P r ps \<Longrightarrow>
   timeline_loop P r ps acc = Inr (acc @ concat (map (kept P r) ps))"
proof (induction ps arbitrary: acc)
  case Nil
  then show ?case by simp
next
  case (Cons p ps)
  obtain l col where p: "p = (l, col)" by (cases p)
  from Cons.prems have rest: "all_parse P r ps"
    and here: "has_date (col r) \<longrightarrow> P (the (col r)) \<noteq> None"
    by (simp_all add: all_parse_def p)
  show ?case
    using here by (auto simp: p kept_def Let_def Cons.IH [OF rest])
qed

lemma timeline_loop_raises:
  "\<not> all_parse P r ps \<Longrightarrow> \<exists>s. timeline_loop P r ps acc = Inl (DateParseError s)"
proof (induction ps arbitrary: acc)
  case Nil
  then show ?case by (simp add: all_parse_def)
next
  case (Cons p ps)
  obtain l col where p: "p = (l, col)" by (cases p)
  show ?case
  proof (cases "has_date (col r) \<and> P (the (col r)) = None")
    case True
    then show ?thesis by (simp add: p)
  next
    case False
    with Cons.prems have np: "\<not> all_parse P r ps"
      by (auto simp: all_parse_def p)
    have ih: "\<exists>s. timeline_loop P r ps acc' = Inl (DateParseError s)" for acc'
      by (rule Cons.IH [OF np])
    show ?thesis
    proof (cases "has_date (col r)")
      case True
      with False obtain t where "P (the (col r)) = Some t" by auto
      then show ?thesis using True ih by (simp add: p)
    next
      case no: False
      then show ?thesis using ih by (simp add: p)
    qed
  qed
qed

lemma kept_eq:
  "kept P r p =
     (case snd p r of
        None \<Rightarrow> []
      | Some s \<Rightarrow>
          if \<not> blank s \<and> lower s \<noteq> ustr ''nan''
          then (case P s of None \<Rightarrow> [] | Some t \<Rightarrow> [(fst p, t)]) else [])"
  by (simp add: kept_def has_date_def strip_Nil_iff split: option.split)

lemma kept_iff:
  "(l, t) \<in> set (kept P r p) \<longleftrightarrow>
     l = fst p \<and> (\<exists>s. snd p r = Some s \<and> \<not> blank s \<and> lower s \<noteq> ustr ''nan'' \<and> P s = Some t)"
proof (cases "snd p r")
  case None
  then have "kept P r p = []" by (simp add: kept_eq)
  then show ?thesis by (simp add: None)
next
  case (Some s)
  note c = this
  show ?thesis
  proof (cases "\<not> blank s \<and> lower s \<noteq> ustr ''nan''")
    case False
    then have "kept P r p = []" by (auto simp: kept_eq c)
    then show ?thesis using False by (auto simp: c)
  next
    case True
    show ?thesis
    proof (cases "P s")
      case None
      then have "kept P r p = []" by (simp add: kept_eq c)
      then show ?thesis by (simp add: c None)
    next
      case (Some t')
      then have "kept P r p = [(fst p, t')]" using True by (simp add: kept_eq c)
      then show ?thesis using True by (auto simp: c Some)
    qed
  qed
qed

lemma present_events_iff:
  "(l, t) \<in> set (present_events P r) \<longleftrightarrow>
     (\<exists>col s. (l, col) \<in> set timeline_points \<and> col r = Some s \<and>
        \<not> blank s \<and> lower s \<noteq> ustr ''nan'' \<and> P s = Some t)"
proof -
  have "(l, t) \<in> set (concat (map (kept P r) ps)) \<longleftrightarrow>
     (\<exists>col s. (l, col) \<in> set ps \<and> col r = Some s \<and>
        \<not> blank s \<and> lower s \<noteq> ustr ''nan'' \<and> P s = Some t)" for ps
  proof (induction ps)
    case Nil
    then show ?case by simp
  next
    case (Cons p ps)
    obtain l' c where p: "p = (l', c)" by (cases p)
    show ?case
      unfolding p using Cons.IH by (simp add: kept_iff) blast
  qed
  then show ?thesis by (simp add: present_events_def)
qed

lemma show_timeline_chart_row:
  assumes "points cd = Some (p # ps)"
    and "rows_at (filter_df df fv) (py_or (hovertext p) (point_Address p)) = r # rs"
  shows "show_timeline_chart P S df (Some cd) fv = render_row P S r"
  using assms by (simp add: show_timeline_chart_def Let_def)

lemma render_row_all_parse:
  assumes "all_parse P r timeline_points"
  shows "render_row P S r =
     (if length (present_events P r) < 2
      then Inr (LockerPlaceholder (title r) ''No timeline available for this locker.'')
      else (case list_sort S (present_events P r) of
              Inl e \<Rightarrow> Inl e
            | Inr sorted_data \<Rightarrow> Inr (TimelineChart (title r) sorted_data)))"
  using timeline_loop_all_parse [OF assms, of "[]"]
  by (simp add: render_row_def present_events_def)

lemma render_row_raises:
  assumes "\<not> all_parse P r timeline_points"
  shows "\<exists>s. render_row P S r = Inl (DateParseError s)"
  using timeline_loop_raises [OF assms, of "[]"]
  by (auto simp: render_row_def)

lemma rows_at_Nil_iff:
  "rows_at dff a = [] \<longleftrightarrow> (\<forall>r \<in> set dff. a = None \<or> Address r \<noteq> a)"
  by (auto simp: rows_at_def filter_empty_conv)

text \<open>The examples.\<close>

lemma rows_at_examples:
  "rows_at [row_a, row_b, row_c] (Some ''1 Main St'') = [row_a]"
  "rows_at [row_a, row_b, row_c] (Some ''2 Elm St'') = [row_b]"
  "rows_at [row_a, row_b, row_c] (Some ''3 Oak Ave'') = [row_c]"
  "rows_at [row_a, row_b, row_c] (Some ''9 Nowhere'') = []"
  "rows_at [row_b, row_c] (Some ''1 Main St'') = []"
  "rows_at [row_d] (Some ''4 Pine Rd'') = [row_d]"
  "rows_at [row_e] (Some ''5 Ash Ct'') = [row_e]"
  "rows_at [row_f] (Some ''6 Bay Pl'') = [row_f]"
  "rows_at [row_g] (Some ''7 Fir Ln'') = [row_g]"
  by (simp_all add: rows_at_def rows)

lemma filter_single_examples:
  "filter_df [row_d] no_filter = [row_d]"
  "filter_df [row_e] no_filter = [row_e]"
  "filter_df [row_f] no_filter = [row_f]"
  "filter_df [row_g] no_filter = [row_g]"
  by (simp_all add: filter_df_def filter_columns_def sels)

lemma kept_examples:
  "present_events iso_date row_a =
     [(''Delivery'', Naive 20240301), (''Receive'', Naive 20240305),
      (''Withdraw'', Naive 20240307), (''Expire'', Naive 20240310)]"
  "present_events iso_date row_b = [(''Receive'', Naive 20240305)]"
  "present_events iso_date row_c =
     [(''Delivery'', Naive 20240301), (''Receive'', Naive 20240309),
      (''Withdraw'', Naive 20240304)]"
  "present_events iso_date row_e = [(''Delivery'', Naive 20240301)]"
  "present_events iso_date row_f =
     [(''Delivery'', Naive 20240301), (''Receive'', Naive 20240305)]"
  "present_events iso_date row_g =
     [(''Delivery'', Naive 20240301), (''Receive'', Aware 20240305)]"
  by (simp_all add: present_events_def timeline_points_def kept_def rows
      has_date_examples iso_date_examples)

lemma all_parse_examples:
  "all_parse iso_date row_a timeline_points"
  "all_parse iso_date row_b timeline_points"
  "all_parse iso_date row_c timeline_points"
  "\<not> all_parse iso_date row_d timeline_points"
  "\<not> all_parse iso_date row_e timeline_points"
  "\<not> all_parse iso_date row_f timeline_points"
  "all_parse iso_date row_g timeline_points"
  by (simp_all add: all_parse_def timeline_points_def rows
      has_date_examples iso_date_examples)

lemma titles:
  "title row_a = Some ''Locker A''" "title row_b = Some ''2 Elm St''" "title row_c = Some ''3 Oak Ave''"
  by (simp_all add: title_def rows)

lemma render_row_examples:
  "render_row iso_date unmoved row_d = Inl (DateParseError (ustr ''not a date''))"
  "render_row iso_date unmoved row_e = Inl (DateParseError (ustr ''soon''))"
  "render_row iso_date unmoved row_f = Inl (DateParseError (ustr ''unknown''))"
  by (simp_all add: render_row_def timeline_points_def rows has_date_examples iso_date_examples)

lemma render_row_mixed_example:
  "render_row iso_date unmoved row_g = Inl TypeError"
  by (simp add: render_row_all_parse all_parse_examples kept_examples list_sort_mixed)

lemma comparable_examples:
  "comparable (map snd (present_events iso_date row_a))"
  "comparable (map snd (present_events iso_date row_c))"
  by (simp_all add: kept_examples comparable_def)

lemma sort_examples:
  "sort_key (\<lambda>x. instant (snd x)) (present_events iso_date row_a) =
     [(''Delivery'', Naive 20240301), (''Receive'', Naive 20240305),
      (''Withdraw'', Naive 20240307), (''Expire'', Naive 20240310)]"
  "sort_key (\<lambda>x. instant (snd x)) (present_events iso_date row_c) =
     [(''Delivery'', Naive 20240301), (''Withdraw'', Naive 20240304),
      (''Receive'', Naive 20240309)]"
  by (simp_all add: kept_examples instant_def)

text \<open>
  \<^bold>\<open>C3\<close>, as the code has it. When the payload has a point and the address of its
  first point equals the address of no filtered row, the callback returns the message
  \<open>No data for this locker.\<close> and raises nothing. The prompt to click a marker is
  returned when there is no payload or the payload has no points.
\<close>

theorem unmatched_click_no_data:
  "(points cd = Some (p # ps) \<and> a = py_or (hovertext p) (point_Address p) \<and>
    (\<forall>r \<in> set (filter_df df fv). a = None \<or> Address r \<noteq> a)
      \<longrightarrow> show_timeline_chart P S df (Some cd) fv = Inr (Placeholder ''No data for this locker.''))
   \<and> (points cd \<in> {None, Some []}
      \<longrightarrow> show_timeline_chart P S df (Some cd) fv = Inr (Placeholder ''Click a marker to see the timeline!''))
   \<and> show_timeline_chart P S df None fv = Inr (Placeholder ''Click a marker to see the timeline!'')"
proof (intro conjI impI)
  assume "points cd = Some (p # ps) \<and> a = py_or (hovertext p) (point_Address p) \<and>
    (\<forall>r \<in> set (filter_df df fv). a = None \<or> Address r \<noteq> a)"
  then have pts: "points cd = Some (p # ps)"
    and "rows_at (filter_df df fv) (py_or (hovertext p) (point_Address p)) = []"
    by (auto simp: rows_at_Nil_iff)
  then show "show_timeline_chart P S df (Some cd) fv = Inr (Placeholder ''No data for this locker.'')"
    by (simp add: show_timeline_chart_def Let_def)
next
  assume "points cd \<in> {None, Some []}"
  then show "show_timeline_chart P S df (Some cd) fv = Inr (Placeholder ''Click a marker to see the timeline!'')"
    by (auto simp: show_timeline_chart_def Let_def)
next
  show "show_timeline_chart P S df None fv = Inr (Placeholder ''Click a marker to see the timeline!'')"
    by (simp add: show_timeline_chart_def Let_def)
qed

theorem unmatched_click_no_data_witness:
  "show_timeline_chart iso_date unmoved example_df (click_on ''9 Nowhere'') no_filter
     = Inr (Placeholder ''No data for this locker.'')"
proof -
  let ?p = "\<lparr> hovertext = Some ''9 Nowhere'', point_Address = None \<rparr>"
  let ?cd = "\<lparr> points = Some [?p] \<rparr>"
  have a: "points ?cd = Some (?p # [])" by simp
  have b: "Some ''9 Nowhere'' = py_or (hovertext ?p) (point_Address ?p)"
    by (simp add: py_or_def)
  have c: "\<forall>r \<in> set (filter_df example_df no_filter).
      Some ''9 Nowhere'' = None \<or> Address r \<noteq> Some ''9 Nowhere''"
    by (simp add: filter_examples rows)
  from unmatched_click_no_data [of ?cd ?p "[]" "Some ''9 Nowhere''" example_df no_filter
      iso_date unmoved] a b c
  show ?thesis unfolding click_on_def by blast
qed

text \<open>
  The locker at 1 Main St is in the Bronx. After a click on it, the Borough filter is set
  to Queens: the callback answers with the no-data message, not with the prompt.
\<close>

theorem unmatched_click_counterexample:
  "show_timeline_chart iso_date unmoved example_df (click_on ''1 Main St'') only_queens
     = Inr (Placeholder ''No data for this locker.'')
   \<and> show_timeline_chart iso_date unmoved example_df (click_on ''1 Main St'') only_queens
     \<noteq> Inr (Placeholder ''Click a marker to see the timeline!'')"
  by (simp add: show_timeline_chart_def click_on_def py_or_def filter_examples rows_at_examples)

text \<open>
  \<^bold>\<open>C4\<close>, as the code has it. For the clicked row, when its present timestamps all
  parse, are at least two, and are timestamps that \<open><\<close> orders (none is \<open>NaT\<close>,
  and they are all without a time zone or all with one), the callback returns the chart,
  and the chart lists exactly the present events in ascending order of timestamp (events
  with equal timestamps stay in the order of \<open>timeline_points\<close>), whatever the order
  of the labels.
\<close>

theorem timeline_chronological:
  assumes "points cd = Some (p # ps)"
    and "rows_at (filter_df df fv) (py_or (hovertext p) (point_Address p)) = r # rs"
    and "all_parse P r timeline_points"
    and "comparable (map snd (present_events P r))"
    and "2 \<le> length (present_events P r)"
  shows "\<exists>evs. show_timeline_chart P S df (Some cd) fv = Inr (TimelineChart (title r) evs)
           \<and> sorted (map (\<lambda>x. instant (snd x)) evs) \<and> mset evs = mset (present_events P r)
           \<and> evs = sort_key (\<lambda>x. instant (snd x)) (present_events P r)"
proof -
  have "show_timeline_chart P S df (Some cd) fv =
      Inr (TimelineChart (title r) (sort_key (\<lambda>x. instant (snd x)) (present_events P r)))"
    using assms(5)
    by (simp add: show_timeline_chart_row [OF assms(1,2)] render_row_all_parse [OF assms(3)]
        list_sort_comparable [OF assms(4)])
  then show ?thesis by simp
qed

theorem timeline_chronological_witness:
  "show_timeline_chart iso_date unmoved example_df (click_on ''1 Main St'') no_filter
     = Inr (TimelineChart (Some ''Locker A'')
         [(''Delivery'', Naive 20240301), (''Receive'', Naive 20240305),
          (''Withdraw'', Naive 20240307), (''Expire'', Naive 20240310)])"
proof -
  let ?p = "\<lparr> hovertext = Some ''1 Main St'', point_Address = None \<rparr>"
  let ?cd = "\<lparr> points = Some [?p] \<rparr>"
  have a: "points ?cd = Some (?p # [])" by simp
  have b: "rows_at (filter_df example_df no_filter) (py_or (hovertext ?p) (point_Address ?p))
      = row_a # []"
    by (simp add: py_or_def filter_examples rows_at_examples)
  have c: "2 \<le> length (present_events iso_date row_a)"
    by (simp add: kept_examples)
  from timeline_chronological [OF a b all_parse_examples(1) comparable_examples(1) c, of unmoved]
  show ?thesis
    by (auto simp: click_on_def sort_examples titles)
qed

text \<open>A withdrawal recorded before the receipt is drawn before it.\<close>

lemma timeline_out_of_order_example:
  "show_timeline_chart iso_date unmoved example_df (click_on ''3 Oak Ave'') no_filter
     = Inr (TimelineChart (Some ''3 Oak Ave'')
         [(''Delivery'', Naive 20240301), (''Withdraw'', Naive 20240304),
          (''Receive'', Naive 20240309)])"
proof -
  have l: "\<not> length (present_events iso_date row_c) < 2"
    by (simp add: kept_examples)
  have s: "list_sort unmoved (present_events iso_date row_c) =
      Inr (sort_key (\<lambda>x. instant (snd x)) (present_events iso_date row_c))"
    by (rule list_sort_comparable [OF comparable_examples(2)])
  have "render_row iso_date unmoved row_c = Inr (TimelineChart (Some ''3 Oak Ave'')
         [(''Delivery'', Naive 20240301), (''Withdraw'', Naive 20240304),
          (''Receive'', Naive 20240309)])"
    by (simp add: render_row_all_parse all_parse_examples l s sort_examples titles)
  then show ?thesis
    by (simp add: show_timeline_chart_def click_on_def py_or_def filter_examples
        rows_at_examples)
qed

text \<open>
  Two lockers with two present timestamps each and no sorted timeline. The locker at
  6 Bay Pl has a third date cell holding \<open>unknown\<close>, and the parser's error is raised.
  The locker at 7 Fir Ln has a delivery without time zone and a receipt in UTC, and the
  sort raises \<open>TypeError\<close>.
\<close>

theorem timeline_unsorted_counterexample:
  "2 \<le> length (present_events iso_date row_f)
   \<and> show_timeline_chart iso_date unmoved [row_f] (click_on ''6 Bay Pl'') no_filter
     = Inl (DateParseError (ustr ''unknown''))
   \<and> 2 \<le> length (present_events iso_date row_g)
   \<and> show_timeline_chart iso_date unmoved [row_g] (click_on ''7 Fir Ln'') no_filter
     = Inl TypeError"
  by (simp add: show_timeline_chart_def click_on_def py_or_def filter_single_examples
      rows_at_examples kept_examples render_row_examples render_row_mixed_example)

text \<open>
  \<^bold>\<open>C6\<close>, as the code has it. A timestamp that is missing, blank (nothing but white
  space), or the text \<open>nan\<close> in any case is left out without an error, and every other
  timestamp is handed to the parser. When all of those parse, the loop returns the parsed
  events, which are exactly the events of the cells that are present, not blank, not
  \<open>nan\<close> and parseable. When one of them does not parse, the parser's error is raised.
\<close>

theorem timeline_loop_omits:
  "(all_parse P r timeline_points \<longrightarrow>
      timeline_loop P r timeline_points [] = Inr (present_events P r))
   \<and> (\<not> all_parse P r timeline_points \<longrightarrow>
      (\<exists>s. timeline_loop P r timeline_points [] = Inl (DateParseError s)))
   \<and> ((l, t) \<in> set (present_events P r) \<longleftrightarrow>
      (\<exists>col s. (l, col) \<in> set timeline_points \<and> col r = Some s \<and>
         \<not> blank s \<and> lower s \<noteq> ustr ''nan'' \<and> P s = Some t))"
proof (intro conjI impI)
  assume "all_parse P r timeline_points"
  from timeline_loop_all_parse [OF this, of "[]"]
  show "timeline_loop P r timeline_points [] = Inr (present_events P r)"
    by (simp add: present_events_def)
next
  assume "\<not> all_parse P r timeline_points"
  then show "\<exists>s. timeline_loop P r timeline_points [] = Inl (DateParseError s)"
    by (rule timeline_loop_raises)
next
  show "(l, t) \<in> set (present_events P r) \<longleftrightarrow>
      (\<exists>col s. (l, col) \<in> set timeline_points \<and> col r = Some s \<and>
         \<not> blank s \<and> lower s \<noteq> ustr ''nan'' \<and> P s = Some t)"
    by (rule present_events_iff)
qed

theorem timeline_loop_omits_witness:
  "all_parse iso_date row_b timeline_points
   \<and> timeline_loop iso_date row_b timeline_points [] = Inr [(''Receive'', Naive 20240305)]
   \<and> \<not> all_parse iso_date row_d timeline_points
   \<and> (\<exists>s. timeline_loop iso_date row_d timeline_points [] = Inl (DateParseError s))"
  using timeline_loop_omits [of iso_date row_b] timeline_loop_omits [of iso_date row_d]
  by (simp add: all_parse_examples kept_examples)

text \<open>
  The delivery date of the locker at 4 Pine Rd is the text \<open>not a date\<close>; its two
  other dates are fine. The callback raises instead of leaving the delivery out.
\<close>

theorem timeline_raises_counterexample:
  "show_timeline_chart iso_date unmoved [row_d] (click_on ''4 Pine Rd'') no_filter
     = Inl (DateParseError (ustr ''not a date''))"
  by (simp add: show_timeline_chart_def click_on_def py_or_def filter_single_examples
      rows_at_examples render_row_examples)

text \<open>
  \<^bold>\<open>C7\<close>, as the code has it. For the clicked row, when its present timestamps all
  parse and are fewer than two (none, or exactly one), the callback returns the locker's
  title with the message \<open>No timeline available for this locker.\<close> instead of a chart.
\<close>

theorem too_few_events_placeholder:
  assumes "points cd = Some (p # ps)"
    and "rows_at (filter_df df fv) (py_or (hovertext p) (point_Address p)) = r # rs"
    and "all_parse P r timeline_points"
    and "length (present_events P r) < 2"
  shows "show_timeline_chart P S df (Some cd) fv =
           Inr (LockerPlaceholder (title r) ''No timeline available for this locker.'')"
  using assms(4)
  by (simp add: show_timeline_chart_row [OF assms(1,2)] render_row_all_parse [OF assms(3)])

theorem too_few_events_placeholder_witness:
  "show_timeline_chart iso_date unmoved example_df (click_on ''2 Elm St'') no_filter
     = Inr (LockerPlaceholder (Some ''2 Elm St'') ''No timeline available for this locker.'')"
proof -
  let ?p = "\<lparr> hovertext = Some ''2 Elm St'', point_Address = None \<rparr>"
  let ?cd = "\<lparr> points = Some [?p] \<rparr>"
  have a: "points ?cd = Some (?p # [])" by simp
  have b: "rows_at (filter_df example_df no_filter) (py_or (hovertext ?p) (point_Address ?p))
      = row_b # []"
    by (simp add: py_or_def filter_examples rows_at_examples)
  have c: "length (present_events iso_date row_b) < 2"
    by (simp add: kept_examples)
  from too_few_events_placeholder [OF a b all_parse_examples(2) c, of unmoved]
  show ?thesis
    by (simp add: click_on_def titles)
qed

text \<open>
  The locker at 5 Ash Ct has one date that parses and one that does not: it has fewer
  than two parseable timestamps, and the callback raises instead of returning the
  placeholder.
\<close>

theorem too_few_raises_counterexample:
  "length (present_events iso_date row_e) < 2
   \<and> show_timeline_chart iso_date unmoved [row_e] (click_on ''5 Ash Ct'') no_filter
     = Inl (DateParseError (ustr ''soon''))"
  by (simp add: show_timeline_chart_def click_on_def py_or_def filter_single_examples
      rows_at_examples kept_examples render_row_examples)

end
